theory Spec2Isabelle
  imports Complex_Main
begin

section \<open>Data model\<close>

text \<open>
  The development embeds two translation units of libIGES: the Line entity
  (\<^verbatim>\<open>entity110.cpp\<close>) and the external handle of the Singular Subfigure Instance
  (\<^verbatim>\<open>dll_entity408.cpp\<close>).

  Conventions of the embedding:
  \<^item> a C++ pointer is an address option, \<open>None\<close> being \<^verbatim>\<open>NULL\<close>; objects live in
    stores indexed by address;
  \<^item> a C++ \<^verbatim>\<open>int\<close> is an \<open>int\<close>; the only arithmetic on it in these files is one
    subtraction of sequence numbers;
  \<^item> a C++ \<^verbatim>\<open>double\<close> is the \<open>real\<close> it holds; infinities and NaN are not modelled.
    Arithmetic on doubles rounds, so the one operation on them in these functions, the
    product in \<^verbatim>\<open>ReadPD\<close>, is not the product of reals but a parameter \<open>mul\<close>, the
    multiplication of the machine, of which the theorems assume at most that
    multiplying by 1 changes nothing, as is the case in binary64;
  \<^item> a member function takes the object and returns the success flag together with
    the updated object; a reference parameter is passed in and returned;
  \<^item> functions of the library that these two files call but do not define are
    parameters of the function that calls them, named as in the source.
\<close>

text \<open>
  Modelled from the spec: the enumerations of the status sub-fields and of the units
  flag are declared in a header that is not among the sources. The subordinate switch
  is "independent, physically dependent, logically dependent, both"; the hierarchy is
  "global top-down, global defer, use-hierarchy-attribute"; the units flag is
  "inch, millimetre, ..., user-defined".
\<close>

datatype IGES_STAT_DEPENDS =
  STAT_INDEPENDENT | STAT_DEP_PHY | STAT_DEP_LOG | STAT_DEP_PHY_LOG

datatype IGES_STAT_HIER =
  STAT_HIER_ALL_SUB | STAT_HIER_NO_SUB | STAT_HIER_USE_PROP

datatype IGES_UNIT =
  UNIT_INCH | UNIT_MILLIMETER | UNIT_EXTERN | UNIT_OTHER int

text \<open>The fields of the global section that the two files read.\<close>

record IGES_GLOBAL =
  pdelim :: char
  rdelim :: char
  minResolution :: real
  unitsFlag :: IGES_UNIT
  convert :: bool
  cf :: real

text \<open>
  The model object: its global data and, for the factory, its entity list (addresses of
  the entities it owns, in insertion order).
\<close>

record IGES =
  globalData :: IGES_GLOBAL
  entities :: "nat list"

text \<open>
  The members of the base class \<^verbatim>\<open>IGES_ENTITY\<close> that the two files touch. The field
  \<^verbatim>\<open>structure\<close> of the source is \<open>structureDE\<close> here, the source's name being a
  keyword. \<open>validFlags\<close> is the list of attached validity flags, each named by the
  address of the handle that owns it.
\<close>

record IGES_ENTITY =
  parent :: "nat option"
  entityType :: int
  form :: int
  structureDE :: int
  hierarchy :: IGES_STAT_HIER
  depends :: IGES_STAT_DEPENDS
  parameterData :: int
  paramLineCount :: int
  sequenceNumber :: int
  pStructure :: "nat option"
  refs :: "nat list"
  extras :: "nat list"
  iExtras :: "int list"
  pdout :: string
  validFlags :: "nat list"

record IGES_ENTITY_110 = IGES_ENTITY +
  X1 :: real
  Y1 :: real
  Z1 :: real
  X2 :: real
  Y2 :: real
  Z2 :: real

section \<open>Entity 110: Line\<close>

subsection \<open>IsOrphaned, SetEntityForm, ReadDE\<close>

definition IsOrphaned :: "'a IGES_ENTITY_scheme \<Rightarrow> bool" where
  "IsOrphaned e =
     (if refs e = [] \<and> depends e \<noteq> STAT_INDEPENDENT then True else False)"

definition SetEntityForm :: "int \<Rightarrow> 'a IGES_ENTITY_scheme \<Rightarrow> bool \<times> 'a IGES_ENTITY_scheme" where
  "SetEntityForm aForm e =
     (if aForm \<noteq> 0 \<and> aForm \<noteq> 1 \<and> aForm \<noteq> 2 then (False, e)
      else (True, e\<lparr>form := aForm\<rparr>))"

text \<open>
  \<^verbatim>\<open>ReadDE( aRecord, aFile, aSequenceVar )\<close>. The base-class reader
  \<^verbatim>\<open>IGES_ENTITY::ReadDE\<close> is the parameter \<open>base\<close>: it consumes the input \<open>io\<close> (the
  record, the stream and the sequence variable) and fills the Directory Entry fields
  of the entity, \<open>form\<close> among them.
\<close>

definition ReadDE ::
  "('io \<Rightarrow> 'a IGES_ENTITY_scheme \<Rightarrow> bool \<times> 'a IGES_ENTITY_scheme \<times> 'io) \<Rightarrow>
   'io \<Rightarrow> 'a IGES_ENTITY_scheme \<Rightarrow> bool \<times> 'a IGES_ENTITY_scheme \<times> 'io" where
  "ReadDE base io e =
     (case base io e of
        (False, e1, io1) \<Rightarrow> (False, e1, io1)
      | (True, e1, io1) \<Rightarrow>
          (let e2 = e1\<lparr>structureDE := 0, hierarchy := STAT_HIER_ALL_SUB\<rparr>
           in if form e2 \<noteq> 0 \<and> form e2 \<noteq> 1 \<and> form e2 \<noteq> 2 then (False, e2, io1)
              else (True, e2, io1)))"

subsection \<open>format\<close>

text \<open>\<^verbatim>\<open>ostr << entityType\<close>: the decimal text of an \<^verbatim>\<open>int\<close>.\<close>

fun string_of_nat :: "nat \<Rightarrow> string" where
  "string_of_nat n =
     (if n < 10 then [''0123456789'' ! n]
      else string_of_nat (n div 10) @ [''0123456789'' ! (n mod 10)])"

declare string_of_nat.simps [simp del]

definition string_of_int :: "int \<Rightarrow> string" where
  "string_of_int i =
     (if i < 0 then CHR ''-'' # string_of_nat (nat (- i)) else string_of_nat (nat i))"

text \<open>The array \<^verbatim>\<open>pt\<close> of the six coordinates, in the order of the parameter data.\<close>

definition pt :: "'a IGES_ENTITY_110_scheme \<Rightarrow> real list" where
  "pt e = [X1 e, Y1 e, Z1 e, X2 e, Y2 e, Z2 e]"

text \<open>
  The loop of \<^verbatim>\<open>format\<close> over the six coordinates. Its state is the quadruple of
  the item buffer \<^verbatim>\<open>tstr\<close>, the line buffer \<^verbatim>\<open>lstr\<close>, the output \<^verbatim>\<open>pdout\<close> and the
  running sequence number \<^verbatim>\<open>index\<close>. The codec functions \<^verbatim>\<open>FormatPDREal\<close> and
  \<^verbatim>\<open>AddPDItem\<close> are parameters; each receives what the source passes to it and
  returns its reference arguments. The result of \<^verbatim>\<open>AddPDItem\<close> is ignored by the
  source, so the parameter returns none.
\<close>

fun format_items ::
  "(string \<Rightarrow> real \<Rightarrow> char \<Rightarrow> real \<Rightarrow> bool \<times> string) \<Rightarrow>
   (string \<Rightarrow> string \<Rightarrow> string \<Rightarrow> int \<Rightarrow> int \<Rightarrow> char \<Rightarrow> char \<Rightarrow> string \<times> string \<times> string \<times> int) \<Rightarrow>
   bool \<Rightarrow> int \<Rightarrow> char \<Rightarrow> char \<Rightarrow> real \<Rightarrow> nat \<Rightarrow> real list \<Rightarrow>
   string \<times> string \<times> string \<times> int \<Rightarrow> bool \<times> string \<times> string \<times> string \<times> int" where
  "format_items FormatPDREal AddPDItem noExtras seqNum pd rd uir i [] st = (True, st)"
| "format_items FormatPDREal AddPDItem noExtras seqNum pd rd uir i (v # vs) (tstr, lstr, out, index) =
     (case FormatPDREal tstr v (if i = 5 \<and> noExtras then rd else pd) uir of
        (False, tstr1) \<Rightarrow> (False, tstr1, lstr, out, index)
      | (True, tstr1) \<Rightarrow>
          format_items FormatPDREal AddPDItem noExtras seqNum pd rd uir (Suc i) vs
            (AddPDItem tstr1 lstr out index seqNum pd rd))"

text \<open>
  \<^verbatim>\<open>format( index )\<close>. The member functions \<^verbatim>\<open>formatExtraParams\<close> and
  \<^verbatim>\<open>formatComments\<close> of the base class are parameters acting on the entity; \<open>mdl\<close>
  is the store of model objects that \<^verbatim>\<open>parent\<close> points into. The result is the
  return value, the entity and the value left in \<^verbatim>\<open>index\<close>.
\<close>

definition format ::
  "(string \<Rightarrow> real \<Rightarrow> char \<Rightarrow> real \<Rightarrow> bool \<times> string) \<Rightarrow>
   (string \<Rightarrow> string \<Rightarrow> string \<Rightarrow> int \<Rightarrow> int \<Rightarrow> char \<Rightarrow> char \<Rightarrow> string \<times> string \<times> string \<times> int) \<Rightarrow>
   ('a IGES_ENTITY_110_scheme \<Rightarrow> string \<Rightarrow> int \<Rightarrow> char \<Rightarrow> char \<Rightarrow>
      bool \<times> 'a IGES_ENTITY_110_scheme \<times> string \<times> int) \<Rightarrow>
   ('a IGES_ENTITY_110_scheme \<Rightarrow> int \<Rightarrow> bool \<times> 'a IGES_ENTITY_110_scheme \<times> int) \<Rightarrow>
   (nat \<Rightarrow> IGES) \<Rightarrow> 'a IGES_ENTITY_110_scheme \<Rightarrow> int \<Rightarrow>
   bool \<times> 'a IGES_ENTITY_110_scheme \<times> int" where
  "format FormatPDREal AddPDItem formatExtraParams formatComments mdl e0 index =
     (let ea = e0\<lparr>pdout := [], iExtras := []\<rparr> in
      if index < 1 \<or> index > 9999999 then (False, ea, index)
      else
        (let e = ea\<lparr>parameterData := index\<rparr> in
         (case parent e of
            None \<Rightarrow> (False, e, index)
          | Some p \<Rightarrow>
              (let pd = pdelim (globalData (mdl p));
                   rd = rdelim (globalData (mdl p));
                   uir = minResolution (globalData (mdl p));
                   lstr = string_of_int (entityType e) @ [pd]
               in
               (case format_items FormatPDREal AddPDItem (extras e = []) (sequenceNumber e)
                       pd rd uir 0 (pt e) ([], lstr, pdout e, index) of
                  (False, tstr1, lstr1, out1, index1) \<Rightarrow> (False, e\<lparr>pdout := out1\<rparr>, index1)
                | (True, tstr1, lstr1, out1, index1) \<Rightarrow>
                    (let e1 = e\<lparr>pdout := out1\<rparr> in
                     (case (if extras e1 \<noteq> [] then formatExtraParams e1 lstr1 index1 pd rd
                            else (True, e1, lstr1, index1)) of
                        (False, e2, lstr2, index2) \<Rightarrow>
                          (False, e2\<lparr>pdout := [], iExtras := []\<rparr>, index2)
                      | (True, e2, lstr2, index2) \<Rightarrow>
                          (case formatComments e2 index2 of
                             (False, e3, index3) \<Rightarrow> (False, e3\<lparr>pdout := []\<rparr>, index3)
                           | (True, e3, index3) \<Rightarrow>
                               (True, e3\<lparr>paramLineCount := index3 - parameterData e3\<rparr>,
                                index3)))))))))"

subsection \<open>ReadPD\<close>

text \<open>
  \<^verbatim>\<open>idx = pdout.find( pd )\<close>: the position of the first occurrence, and \<open>-1\<close> (the
  value of \<^verbatim>\<open>npos\<close> stored into an \<^verbatim>\<open>int\<close>) when there is none.
\<close>

fun string_find :: "string \<Rightarrow> char \<Rightarrow> int" where
  "string_find [] c = - 1"
| "string_find (x # xs) c =
     (if x = c then 0
      else (let r = string_find xs c in if r < 0 then - 1 else r + 1))"

text \<open>
  One call \<^verbatim>\<open>ParseReal( pdout, idx, F, eor, pd, rd )\<close> for a coordinate \<open>F\<close>, given
  by its selector and its update. \<^verbatim>\<open>ParseReal\<close> is a parameter: it returns its result
  and its three reference arguments \<^verbatim>\<open>idx\<close>, the number and \<^verbatim>\<open>eor\<close>.
\<close>

definition read_field ::
  "(string \<Rightarrow> int \<Rightarrow> real \<Rightarrow> bool \<Rightarrow> char \<Rightarrow> char \<Rightarrow> bool \<times> int \<times> real \<times> bool) \<Rightarrow>
   char \<Rightarrow> char \<Rightarrow> ('a IGES_ENTITY_110_scheme \<Rightarrow> real) \<Rightarrow>
   ((real \<Rightarrow> real) \<Rightarrow> 'a IGES_ENTITY_110_scheme \<Rightarrow> 'a IGES_ENTITY_110_scheme) \<Rightarrow>
   'a IGES_ENTITY_110_scheme \<times> int \<times> bool \<Rightarrow>
   bool \<times> 'a IGES_ENTITY_110_scheme \<times> int \<times> bool" where
  "read_field ParseReal pd rd sel upd st =
     (case st of (e, idx, eor) \<Rightarrow>
        (case ParseReal (pdout e) idx (sel e) eor pd rd of
           (ok, idx1, v, eor1) \<Rightarrow> (ok, upd (\<lambda>_. v) e, idx1, eor1)))"

text \<open>The six calls in sequence, each returning false at once when its call fails.\<close>

fun read_fields ::
  "(string \<Rightarrow> int \<Rightarrow> real \<Rightarrow> bool \<Rightarrow> char \<Rightarrow> char \<Rightarrow> bool \<times> int \<times> real \<times> bool) \<Rightarrow>
   char \<Rightarrow> char \<Rightarrow>
   (('a IGES_ENTITY_110_scheme \<Rightarrow> real) \<times>
    ((real \<Rightarrow> real) \<Rightarrow> 'a IGES_ENTITY_110_scheme \<Rightarrow> 'a IGES_ENTITY_110_scheme)) list \<Rightarrow>
   'a IGES_ENTITY_110_scheme \<times> int \<times> bool \<Rightarrow>
   bool \<times> 'a IGES_ENTITY_110_scheme \<times> int \<times> bool" where
  "read_fields ParseReal pd rd [] st = (True, st)"
| "read_fields ParseReal pd rd ((sel, upd) # fs) st =
     (case read_field ParseReal pd rd sel upd st of
        (False, st1) \<Rightarrow> (False, st1)
      | (True, st1) \<Rightarrow> read_fields ParseReal pd rd fs st1)"

text \<open>
  The first part of \<^verbatim>\<open>ReadPD\<close>, up to the unit conversion: the base-class reader
  \<open>base\<close> (it loads the parameter block of the entity into \<^verbatim>\<open>pdout\<close>), the position of
  the first delimiter, the six coordinates, the optional pointers and the comments.
  \<^verbatim>\<open>readExtraParams\<close> and \<^verbatim>\<open>readComments\<close> are parameters acting on the entity.
  The source dereferences \<^verbatim>\<open>parent\<close> without a test: the result is \<open>None\<close> when the
  pointer is null there.
\<close>

definition ReadPD_parse ::
  "('io \<Rightarrow> 'a IGES_ENTITY_110_scheme \<Rightarrow> bool \<times> 'a IGES_ENTITY_110_scheme \<times> 'io) \<Rightarrow>
   (string \<Rightarrow> int \<Rightarrow> real \<Rightarrow> bool \<Rightarrow> char \<Rightarrow> char \<Rightarrow> bool \<times> int \<times> real \<times> bool) \<Rightarrow>
   ('a IGES_ENTITY_110_scheme \<Rightarrow> int \<Rightarrow> bool \<times> 'a IGES_ENTITY_110_scheme \<times> int) \<Rightarrow>
   ('a IGES_ENTITY_110_scheme \<Rightarrow> int \<Rightarrow> bool \<times> 'a IGES_ENTITY_110_scheme \<times> int) \<Rightarrow>
   (nat \<Rightarrow> IGES) \<Rightarrow> 'io \<Rightarrow> 'a IGES_ENTITY_110_scheme \<Rightarrow>
   (bool \<times> 'a IGES_ENTITY_110_scheme \<times> 'io) option" where
  "ReadPD_parse base ParseReal readExtraParams readComments mdl io e =
     (case base io e of
        (False, e1, io1) \<Rightarrow> Some (False, e1, io1)
      | (True, e1, io1) \<Rightarrow>
          (case parent e1 of
             None \<Rightarrow> None
           | Some p \<Rightarrow>
               (let pd = pdelim (globalData (mdl p));
                    rd = rdelim (globalData (mdl p));
                    idx = string_find (pdout e1) pd
                in
                if idx < 1 \<or> idx > 8 then Some (False, e1, io1)
                else
                  (case read_fields ParseReal pd rd
                          [(X1, X1_update), (Y1, Y1_update), (Z1, Z1_update),
                           (X2, X2_update), (Y2, Y2_update), (Z2, Z2_update)]
                          (e1, idx + 1, False) of
                     (False, e2, idx2, eor2) \<Rightarrow> Some (False, e2, io1)
                   | (True, e2, idx2, eor2) \<Rightarrow>
                       (case (if \<not> eor2 then readExtraParams e2 idx2 else (True, e2, idx2)) of
                          (False, e3, idx3) \<Rightarrow> Some (False, e3, io1)
                        | (True, e3, idx3) \<Rightarrow>
                            (case readComments e3 idx3 of
                               (False, e4, idx4) \<Rightarrow> Some (False, e4, io1)
                             | (True, e4, idx4) \<Rightarrow> Some (True, e4, io1)))))))"

text \<open>
  Modelled from the spec: the code that sets the conversion factor \<^verbatim>\<open>cf\<close> of the
  global data lies outside the two files. The spec has "if the flag names a
  non-millimetre unit and the caller has enabled conversion, cf is that unit in
  millimetres, else 1.0". The table \<open>unit_mm\<close> of the lengths of the units in millimetres
  is a parameter.
\<close>

definition unit_cf :: "(IGES_UNIT \<Rightarrow> real) \<Rightarrow> IGES_UNIT \<Rightarrow> bool \<Rightarrow> real" where
  "unit_cf unit_mm flag conv =
     (if flag \<noteq> UNIT_MILLIMETER \<and> conv then unit_mm flag else 1)"

text \<open>
  The unit conversion at the end of \<^verbatim>\<open>ReadPD\<close>, for the global data \<open>g\<close> of the parent;
  \<open>mul\<close> is the multiplication of doubles.
\<close>

definition ReadPD_convert ::
  "(real \<Rightarrow> real \<Rightarrow> real) \<Rightarrow> IGES_GLOBAL \<Rightarrow>
   'a IGES_ENTITY_110_scheme \<Rightarrow> 'a IGES_ENTITY_110_scheme" where
  "ReadPD_convert mul g e =
     (if convert g then
        e\<lparr>X1 := mul (X1 e) (cf g), Y1 := mul (Y1 e) (cf g), Z1 := mul (Z1 e) (cf g),
          X2 := mul (X2 e) (cf g), Y2 := mul (Y2 e) (cf g), Z2 := mul (Z2 e) (cf g)\<rparr>
      else e)"

text \<open>\<^verbatim>\<open>ReadPD( aFile, aSequenceVar )\<close>: the two parts, then \<^verbatim>\<open>pdout.clear()\<close>.\<close>

definition ReadPD ::
  "(real \<Rightarrow> real \<Rightarrow> real) \<Rightarrow>
   ('io \<Rightarrow> 'a IGES_ENTITY_110_scheme \<Rightarrow> bool \<times> 'a IGES_ENTITY_110_scheme \<times> 'io) \<Rightarrow>
   (string \<Rightarrow> int \<Rightarrow> real \<Rightarrow> bool \<Rightarrow> char \<Rightarrow> char \<Rightarrow> bool \<times> int \<times> real \<times> bool) \<Rightarrow>
   ('a IGES_ENTITY_110_scheme \<Rightarrow> int \<Rightarrow> bool \<times> 'a IGES_ENTITY_110_scheme \<times> int) \<Rightarrow>
   ('a IGES_ENTITY_110_scheme \<Rightarrow> int \<Rightarrow> bool \<times> 'a IGES_ENTITY_110_scheme \<times> int) \<Rightarrow>
   (nat \<Rightarrow> IGES) \<Rightarrow> 'io \<Rightarrow> 'a IGES_ENTITY_110_scheme \<Rightarrow>
   (bool \<times> 'a IGES_ENTITY_110_scheme \<times> 'io) option" where
  "ReadPD mul base ParseReal readExtraParams readComments mdl io e =
     (case ReadPD_parse base ParseReal readExtraParams readComments mdl io e of
        None \<Rightarrow> None
      | Some (False, e4, io1) \<Rightarrow> Some (False, e4, io1)
      | Some (True, e4, io1) \<Rightarrow>
          (case parent e4 of
             None \<Rightarrow> None
           | Some p \<Rightarrow>
               Some (True, (ReadPD_convert mul (globalData (mdl p)) e4)\<lparr>pdout := []\<rparr>, io1)))"

subsection \<open>associate\<close>

text \<open>
  Modelled from the spec: \<^verbatim>\<open>IGES_ENTITY::DelReference\<close> is defined outside the two
  files. The spec has "AddReference(parent) / DelReference(parent): maintain the refs
  list" and "all mutators return success/failure": the parent is taken out of \<open>refs\<close>
  once, and the result tells whether it was there. The Line's own \<^verbatim>\<open>DelReference\<close>
  only forwards to it.
\<close>

definition DelReference ::
  "nat \<Rightarrow> 'a IGES_ENTITY_scheme \<Rightarrow> bool \<times> 'a IGES_ENTITY_scheme" where
  "DelReference aParentEntity e =
     (if aParentEntity \<in> set (refs e)
      then (True, e\<lparr>refs := remove1 aParentEntity (refs e)\<rparr>)
      else (False, e))"

text \<open>
  \<^verbatim>\<open>associate( entities )\<close> for the Line at address \<open>this\<close> in the entity store \<open>h\<close>,
  with the argument \<open>entityList\<close>. The base-class \<^verbatim>\<open>IGES_ENTITY::associate\<close> is the parameter \<open>base\<close>, acting on the
  whole store since it binds pointers between entities. The diagnostic stream is the
  list \<open>errlog\<close> of the messages written with \<^verbatim>\<open>ERRMSG\<close>. The store is updated first at
  the structure entity, then at the Line, so the model covers the two being the same
  object.
\<close>

definition associate ::
  "('l \<Rightarrow> nat \<Rightarrow> (nat \<Rightarrow> 'a IGES_ENTITY_scheme) \<Rightarrow> bool \<times> (nat \<Rightarrow> 'a IGES_ENTITY_scheme)) \<Rightarrow>
   'l \<Rightarrow> nat \<Rightarrow> (nat \<Rightarrow> 'a IGES_ENTITY_scheme) \<Rightarrow> string list \<Rightarrow>
   bool \<times> (nat \<Rightarrow> 'a IGES_ENTITY_scheme) \<times> string list" where
  "associate base entityList this h errlog =
     (case base entityList this h of
        (False, h1) \<Rightarrow> (False, h1, errlog @ [''[INFO] failed to establish associations''])
      | (True, h1) \<Rightarrow>
          (case pStructure (h1 this) of
             None \<Rightarrow> (True, h1, errlog)
           | Some t \<Rightarrow>
               (let log1 = errlog @ [''[VIOLATION] Structure entity is set''];
                    h2 = h1(t := snd (DelReference this (h1 t)));
                    h3 = h2(this := (h2 this)\<lparr>pStructure := None\<rparr>)
                in (True, h3, log1))))"

section \<open>The external handle of entity 408\<close>

text \<open>
  The Singular Subfigure Instance: the base members, the offset, the scale and the
  pointer to the subfigure definition.
\<close>

record IGES_ENTITY_408 = IGES_ENTITY +
  X :: real
  Y :: real
  Z :: real
  S :: real
  DE :: "nat option"

record DLL_IGES_ENTITY_408 =
  m_type :: int
  m_valid :: bool
  m_entity :: "nat option"

text \<open>
  Modelled from the spec: the enumerator \<^verbatim>\<open>ENT_SINGULAR_SUBFIGURE_INSTANCE\<close> is
  declared outside the two files; the spec lists 408 as the public code of the
  singular subfigure instance.
\<close>

definition ENT_SINGULAR_SUBFIGURE_INSTANCE :: int where
  "ENT_SINGULAR_SUBFIGURE_INSTANCE = 408"

subsection \<open>Accessors\<close>

text \<open>
  The four operations on a handle \<open>hnd\<close> over the entity store \<open>h\<close>. An output
  parameter is passed in with its current value and returned. \<^verbatim>\<open>GetDE\<close> and \<^verbatim>\<open>SetDE\<close>
  of the entity are parameters, applied to the address of the entity.
\<close>

definition GetSubfigure ::
  "(nat \<Rightarrow> nat option \<Rightarrow> (nat \<Rightarrow> IGES_ENTITY_408) \<Rightarrow> bool \<times> nat option \<times> (nat \<Rightarrow> IGES_ENTITY_408)) \<Rightarrow>
   DLL_IGES_ENTITY_408 \<Rightarrow> (nat \<Rightarrow> IGES_ENTITY_408) \<Rightarrow> nat option \<Rightarrow>
   bool \<times> nat option \<times> (nat \<Rightarrow> IGES_ENTITY_408)" where
  "GetSubfigure GetDE hnd h aPtr =
     (if \<not> m_valid hnd \<or> m_entity hnd = None then (False, aPtr, h)
      else GetDE (the (m_entity hnd)) aPtr h)"

definition SetSubfigure ::
  "(nat \<Rightarrow> nat option \<Rightarrow> (nat \<Rightarrow> IGES_ENTITY_408) \<Rightarrow> bool \<times> (nat \<Rightarrow> IGES_ENTITY_408)) \<Rightarrow>
   DLL_IGES_ENTITY_408 \<Rightarrow> (nat \<Rightarrow> IGES_ENTITY_408) \<Rightarrow> nat option \<Rightarrow>
   bool \<times> (nat \<Rightarrow> IGES_ENTITY_408)" where
  "SetSubfigure SetDE hnd h aPtr =
     (if \<not> m_valid hnd \<or> m_entity hnd = None then (False, h)
      else SetDE (the (m_entity hnd)) aPtr h)"

definition GetSubfigParams ::
  "DLL_IGES_ENTITY_408 \<Rightarrow> (nat \<Rightarrow> IGES_ENTITY_408) \<Rightarrow> real \<times> real \<times> real \<times> real \<Rightarrow>
   bool \<times> real \<times> real \<times> real \<times> real" where
  "GetSubfigParams hnd h outs =
     (if \<not> m_valid hnd \<or> m_entity hnd = None then (False, outs)
      else (let ip = h (the (m_entity hnd)) in (True, X ip, Y ip, Z ip, S ip)))"

definition SetSubfigParams ::
  "DLL_IGES_ENTITY_408 \<Rightarrow> (nat \<Rightarrow> IGES_ENTITY_408) \<Rightarrow> real \<Rightarrow> real \<Rightarrow> real \<Rightarrow> real \<Rightarrow>
   bool \<times> (nat \<Rightarrow> IGES_ENTITY_408)" where
  "SetSubfigParams hnd h aX aY aZ aScale =
     (if \<not> m_valid hnd \<or> m_entity hnd = None then (False, h)
      else (let a = the (m_entity hnd)
            in (True, h(a := (h a)\<lparr>X := aX, Y := aY, Z := aZ, S := aScale\<rparr>))))"

subsection \<open>Constructors\<close>

text \<open>
  The state the constructors act on: the store of model objects, the store of
  entities, and the next address that \<^verbatim>\<open>new\<close> hands out.
\<close>

record world =
  models :: "nat \<Rightarrow> IGES"
  ents :: "nat \<Rightarrow> IGES_ENTITY_408"
  next_addr :: nat

text \<open>
  \<^verbatim>\<open>new IGES_ENTITY_408( aParent )\<close>. The constructor of the entity is defined outside
  the two files: \<open>init\<close> stands for the object it builds, of which only the parent
  pointer, its argument, is fixed here.
\<close>

definition new_IGES_ENTITY_408 ::
  "IGES_ENTITY_408 \<Rightarrow> nat option \<Rightarrow> world \<Rightarrow> nat \<times> world" where
  "new_IGES_ENTITY_408 init aParent w =
     (let a = next_addr w
      in (a, w\<lparr>ents := (ents w)(a := init\<lparr>parent := aParent\<rparr>), next_addr := Suc a\<rparr>))"

text \<open>
  Modelled from the spec: \<^verbatim>\<open>IGES::NewEntity\<close> is defined outside the two files. The
  spec has "the model owns the entity list in insertion order; NewEntity(type)
  appends" and "the registry is a mapping from entity type-code to a constructor":
  the entity is built with the model \<open>m\<close> as its parent, carries the requested code and
  is appended to the entity list of \<open>m\<close>; its address is stored through the pointer
  argument. The dispatch on the code is not modelled, the store holding the one
  variant that the handle asks for.
\<close>

definition NewEntity ::
  "IGES_ENTITY_408 \<Rightarrow> nat \<Rightarrow> int \<Rightarrow> world \<Rightarrow> bool \<times> nat option \<times> world" where
  "NewEntity init m aType w =
     (case new_IGES_ENTITY_408 (init\<lparr>entityType := aType\<rparr>) (Some m) w of
        (a, w1) \<Rightarrow>
          (True, Some a,
           w1\<lparr>models := (models w1)(m := (models w1 m)\<lparr>entities := entities (models w1 m) @ [a]\<rparr>)\<rparr>))"

text \<open>
  Modelled from the spec: \<^verbatim>\<open>IGES_ENTITY::AttachValidFlag\<close> is defined outside the
  two files. The spec has "each entity holds a list of boolean flags owned by external
  handles; the flag list is append-only during the entity's life; on destruction the
  entity sets every attached flag to false": the flag of the handle at address \<open>hp\<close>
  joins the list of the entity, and reads true from then on, the entity being alive.
\<close>

definition AttachValidFlag ::
  "nat \<Rightarrow> DLL_IGES_ENTITY_408 \<Rightarrow> IGES_ENTITY_408 \<Rightarrow> DLL_IGES_ENTITY_408 \<times> IGES_ENTITY_408" where
  "AttachValidFlag hp hnd e = (hnd\<lparr>m_valid := True\<rparr>, e\<lparr>validFlags := validFlags e @ [hp]\<rparr>)"

text \<open>
  The body shared by the two constructors after \<^verbatim>\<open>m_entity\<close> is set:
  \<^verbatim>\<open>if( NULL != m_entity ) m_entity->AttachValidFlag( &m_valid )\<close>.
\<close>

definition attach_if_set :: "nat \<Rightarrow> DLL_IGES_ENTITY_408 \<Rightarrow> world \<Rightarrow> DLL_IGES_ENTITY_408 \<times> world" where
  "attach_if_set hp hnd w =
     (case m_entity hnd of
        None \<Rightarrow> (hnd, w)
      | Some a \<Rightarrow>
          (case AttachValidFlag hp hnd (ents w a) of
             (hnd1, e1) \<Rightarrow> (hnd1, w\<lparr>ents := (ents w)(a := e1)\<rparr>)))"

text \<open>
  \<^verbatim>\<open>DLL_IGES_ENTITY_408( IGES* aParent, bool create )\<close>, for the handle at address
  \<open>hp\<close>. \<open>hnd0\<close> is the handle as the base-class constructor leaves it.
\<close>

definition DLL_IGES_ENTITY_408_ctor ::
  "IGES_ENTITY_408 \<Rightarrow> nat \<Rightarrow> nat option \<Rightarrow> bool \<Rightarrow> DLL_IGES_ENTITY_408 \<Rightarrow> world \<Rightarrow>
   DLL_IGES_ENTITY_408 \<times> world" where
  "DLL_IGES_ENTITY_408_ctor init hp aParent create hnd0 w =
     (let hnd = hnd0\<lparr>m_type := ENT_SINGULAR_SUBFIGURE_INSTANCE\<rparr> in
      if create then
        (case aParent of
           Some m \<Rightarrow>
             (case NewEntity init m ENT_SINGULAR_SUBFIGURE_INSTANCE w of
                (ok, p, w1) \<Rightarrow> attach_if_set hp (hnd\<lparr>m_entity := p\<rparr>) w1)
         | None \<Rightarrow>
             (case new_IGES_ENTITY_408 init None w of
                (a, w1) \<Rightarrow> attach_if_set hp (hnd\<lparr>m_entity := Some a\<rparr>) w1))
      else (hnd, w))"

text \<open>
  \<^verbatim>\<open>DLL_IGES_ENTITY_408( DLL_IGES& aParent, bool create )\<close>; \<open>ip\<close> is the raw pointer
  that \<^verbatim>\<open>aParent.GetRawPtr()\<close> returns.
\<close>

definition DLL_IGES_ENTITY_408_ctor_dll ::
  "IGES_ENTITY_408 \<Rightarrow> nat \<Rightarrow> nat option \<Rightarrow> bool \<Rightarrow> DLL_IGES_ENTITY_408 \<Rightarrow> world \<Rightarrow>
   DLL_IGES_ENTITY_408 \<times> world" where
  "DLL_IGES_ENTITY_408_ctor_dll init hp ip create hnd0 w =
     (let hnd = hnd0\<lparr>m_type := ENT_SINGULAR_SUBFIGURE_INSTANCE\<rparr> in
      if \<not> create \<or> ip = None then (hnd, w)
      else
        (case NewEntity init (the ip) ENT_SINGULAR_SUBFIGURE_INSTANCE w of
           (ok, p, w1) \<Rightarrow> attach_if_set hp (hnd\<lparr>m_entity := p\<rparr>) w1))"

section \<open>Concrete objects\<close>

text \<open>
  The objects at which the theorems below are exercised: the global data of a
  millimetre model with the default delimiters, a model holding them, and the Line of
  the round-trip scenario of the spec, from (0,0,0) to (1,2,3), owned by the model at
  address 0.
\<close>

definition mm_globals :: IGES_GLOBAL where
  "mm_globals =
     \<lparr>pdelim = CHR '','', rdelim = CHR '';'', minResolution = 1 / 1000,
      unitsFlag = UNIT_MILLIMETER, convert = True, cf = 1\<rparr>"

definition mm_model :: IGES where
  "mm_model = \<lparr>globalData = mm_globals, entities = []\<rparr>"

definition line_123 :: IGES_ENTITY_110 where
  "line_123 =
     \<lparr>parent = Some 0, entityType = 110, form = 0, structureDE = 0,
      hierarchy = STAT_HIER_ALL_SUB, depends = STAT_INDEPENDENT, parameterData = 0,
      paramLineCount = 0, sequenceNumber = 1, pStructure = None, refs = [], extras = [],
      iExtras = [], pdout = [], validFlags = [],
      X1 = 0, Y1 = 0, Z1 = 0, X2 = 1, Y2 = 2, Z2 = 3\<rparr>"

definition instance_408 :: IGES_ENTITY_408 where
  "instance_408 =
     \<lparr>parent = None, entityType = 408, form = 0, structureDE = 0,
      hierarchy = STAT_HIER_ALL_SUB, depends = STAT_INDEPENDENT, parameterData = 0,
      paramLineCount = 0, sequenceNumber = 0, pStructure = None, refs = [], extras = [],
      iExtras = [], pdout = [], validFlags = [],
      X = 0, Y = 0, Z = 0, S = 1, DE = None\<rparr>"

definition empty_handle :: DLL_IGES_ENTITY_408 where
  "empty_handle = \<lparr>m_type = 0, m_valid = False, m_entity = None\<rparr>"

definition empty_world :: world where
  "empty_world = \<lparr>models = (\<lambda>_. mm_model), ents = (\<lambda>_. instance_408), next_addr = 0\<rparr>"

text \<open>
  The store of models in which every address holds a millimetre model with conversion
  enabled and conversion factor \<open>c\<close>.
\<close>

definition models_mm :: "real \<Rightarrow> nat \<Rightarrow> IGES" where
  "models_mm c a = \<lparr>globalData = mm_globals\<lparr>cf := c\<rparr>, entities = []\<rparr>"

text \<open>
  An inch model with conversion enabled, its factor the inch in millimetres, and the
  store in which every address holds it; a table of unit lengths that has the inch.
\<close>

definition inch_globals :: IGES_GLOBAL where
  "inch_globals = mm_globals\<lparr>unitsFlag := UNIT_INCH, cf := 254 / 10\<rparr>"

definition models_inch :: "nat \<Rightarrow> IGES" where
  "models_inch a = \<lparr>globalData = inch_globals, entities = []\<rparr>"

definition sample_unit_mm :: "IGES_UNIT \<Rightarrow> real" where
  "sample_unit_mm u = (if u = UNIT_INCH then 254 / 10 else 1)"

text \<open>
  Stand-ins for the library functions that are parameters above, simple enough to be
  evaluated. They are not the functions of the library: the theorems hold for every
  choice of the parameters and are exercised at these. The formatter writes the
  integer part of a number; the item writer emits one 80-column record and a newline
  when the item ends with the record delimiter; the record counter divides the length
  of the output by 81; the readers accept unsigned integers. The stand-in for the
  multiplication of doubles is the exact product, which is what the machine computes
  when one factor is 0 or 1.
\<close>

definition sample_mul :: "real \<Rightarrow> real \<Rightarrow> real" where
  "sample_mul x y = x * y"

definition sample_FormatPDREal :: "string \<Rightarrow> real \<Rightarrow> char \<Rightarrow> real \<Rightarrow> bool \<times> string" where
  "sample_FormatPDREal tstr v delim uir = (True, string_of_int \<lfloor>v\<rfloor> @ [delim])"

definition sample_AddPDItem ::
  "string \<Rightarrow> string \<Rightarrow> string \<Rightarrow> int \<Rightarrow> int \<Rightarrow> char \<Rightarrow> char \<Rightarrow> string \<times> string \<times> string \<times> int" where
  "sample_AddPDItem tstr lstr out index seqNum pd rd =
     (if tstr \<noteq> [] \<and> last tstr = rd
      then (tstr, [], out @ take 80 (lstr @ tstr @ replicate 80 (CHR '' '')) @ [CHR 0x0A], index + 1)
      else (tstr, lstr @ tstr, out, index))"

definition sample_formatExtraParams ::
  "'a IGES_ENTITY_110_scheme \<Rightarrow> string \<Rightarrow> int \<Rightarrow> char \<Rightarrow> char \<Rightarrow>
   bool \<times> 'a IGES_ENTITY_110_scheme \<times> string \<times> int" where
  "sample_formatExtraParams e lstr index pd rd = (True, e, lstr, index)"

definition sample_formatComments ::
  "'a IGES_ENTITY_110_scheme \<Rightarrow> int \<Rightarrow> bool \<times> 'a IGES_ENTITY_110_scheme \<times> int" where
  "sample_formatComments e index = (True, e, index)"

definition count_records :: "string \<Rightarrow> int" where
  "count_records out = int (length out) div 81"


definition sample_ReadDE_base ::
  "int \<times> int \<times> IGES_STAT_HIER \<Rightarrow> 'a IGES_ENTITY_scheme \<Rightarrow>
   bool \<times> 'a IGES_ENTITY_scheme \<times> (int \<times> int \<times> IGES_STAT_HIER)" where
  "sample_ReadDE_base io e =
     (case io of (f, s, hi) \<Rightarrow> (True, e\<lparr>form := f, structureDE := s, hierarchy := hi\<rparr>, io))"

definition sample_ReadPD_base ::
  "string \<Rightarrow> 'a IGES_ENTITY_110_scheme \<Rightarrow> bool \<times> 'a IGES_ENTITY_110_scheme \<times> string" where
  "sample_ReadPD_base io e = (True, e\<lparr>pdout := io\<rparr>, [])"

definition digit_value :: "char \<Rightarrow> nat option" where
  "digit_value =
     map_of [(CHR ''0'', 0), (CHR ''1'', 1), (CHR ''2'', 2), (CHR ''3'', 3), (CHR ''4'', 4),
             (CHR ''5'', 5), (CHR ''6'', 6), (CHR ''7'', 7), (CHR ''8'', 8), (CHR ''9'', 9)]"

fun parse_digits :: "nat \<Rightarrow> string \<Rightarrow> nat \<times> string" where
  "parse_digits acc [] = (acc, [])"
| "parse_digits acc (c # cs) =
     (case digit_value c of
        None \<Rightarrow> (acc, c # cs)
      | Some d \<Rightarrow> parse_digits (10 * acc + d) cs)"

definition sample_ParseReal ::
  "string \<Rightarrow> int \<Rightarrow> real \<Rightarrow> bool \<Rightarrow> char \<Rightarrow> char \<Rightarrow> bool \<times> int \<times> real \<times> bool" where
  "sample_ParseReal data idx aNumber eor pd rd =
     (case parse_digits 0 (drop (nat idx) data) of
        (n, []) \<Rightarrow> (False, idx, aNumber, eor)
      | (n, c # cs) \<Rightarrow>
          if c = pd \<or> c = rd then (True, int (length data - length cs), real n, c = rd)
          else (False, idx, aNumber, eor))"

definition sample_readExtraParams ::
  "'a IGES_ENTITY_110_scheme \<Rightarrow> int \<Rightarrow> bool \<times> 'a IGES_ENTITY_110_scheme \<times> int" where
  "sample_readExtraParams e idx = (True, e, idx)"

definition sample_readComments ::
  "'a IGES_ENTITY_110_scheme \<Rightarrow> int \<Rightarrow> bool \<times> 'a IGES_ENTITY_110_scheme \<times> int" where
  "sample_readComments e idx = (True, e, idx)"

definition sample_associate_base ::
  "unit \<Rightarrow> nat \<Rightarrow> (nat \<Rightarrow> IGES_ENTITY_110) \<Rightarrow> bool \<times> (nat \<Rightarrow> IGES_ENTITY_110)" where
  "sample_associate_base entityList this h = (True, h)"

definition sample_store :: "nat \<Rightarrow> IGES_ENTITY_110" where
  "sample_store a =
     (if a = 4 then line_123\<lparr>pStructure := Some 2\<rparr>
      else if a = 2 then line_123\<lparr>refs := [7, 4, 9]\<rparr>
      else if a = 3 then line_123\<lparr>refs := [4]\<rparr>
      else line_123)"

definition sample_GetDE ::
  "nat \<Rightarrow> nat option \<Rightarrow> (nat \<Rightarrow> IGES_ENTITY_408) \<Rightarrow> bool \<times> nat option \<times> (nat \<Rightarrow> IGES_ENTITY_408)" where
  "sample_GetDE a aPtr h = (DE (h a) \<noteq> None, DE (h a), h)"

definition sample_SetDE ::
  "nat \<Rightarrow> nat option \<Rightarrow> (nat \<Rightarrow> IGES_ENTITY_408) \<Rightarrow> bool \<times> (nat \<Rightarrow> IGES_ENTITY_408)" where
  "sample_SetDE a aPtr h = (True, h(a := (h a)\<lparr>DE := aPtr\<rparr>))"

section \<open>Properties of the Line\<close>

subsection \<open>Orphans\<close>

text \<open>
  C9. For every Line entity, \<open>IsOrphaned\<close> returns true if and only if the refs list is
  empty and the subordinate-status sub-field \<open>depends\<close> is not \<open>STAT_INDEPENDENT\<close>.
\<close>

theorem IsOrphaned_iff:
  "IsOrphaned (e :: 'a IGES_ENTITY_110_scheme) = (refs e = [] \<and> depends e \<noteq> STAT_INDEPENDENT)"
  by (simp add: IsOrphaned_def)

theorem IsOrphaned_iff_witness:
  "IsOrphaned (line_123\<lparr>depends := STAT_DEP_PHY\<rparr>)
   \<and> \<not> IsOrphaned line_123
   \<and> \<not> IsOrphaned (line_123\<lparr>depends := STAT_DEP_PHY, refs := [4]\<rparr>)"
  using IsOrphaned_iff [of "line_123\<lparr>depends := STAT_DEP_PHY\<rparr>"]
    IsOrphaned_iff [of line_123]
    IsOrphaned_iff [of "line_123\<lparr>depends := STAT_DEP_PHY, refs := [4]\<rparr>"]
  by (simp add: line_123_def)

subsection \<open>Evaluation of the concrete objects\<close>

lemma format_line_123:
  "format sample_FormatPDREal sample_AddPDItem sample_formatExtraParams sample_formatComments
     (models_mm 1) (line_123\<lparr>paramLineCount := 99\<rparr>) 5
   = (True, line_123\<lparr>paramLineCount := 1, parameterData := 5,
        pdout := ''110,0,0,0,1,2,3;'' @ replicate 64 (CHR '' '') @ [CHR 0x0A]\<rparr>, 6)"
  by (simp add: format_def Let_def line_123_def models_mm_def mm_globals_def pt_def
      sample_FormatPDREal_def sample_AddPDItem_def sample_formatExtraParams_def
      sample_formatComments_def string_of_int_def string_of_nat.simps)

lemma ReadPD_parse_text:
  "ReadPD_parse sample_ReadPD_base sample_ParseReal sample_readExtraParams sample_readComments
     (models_mm c) ''110,4,5,6,7,8,9;'' line_123
   = Some (True, line_123\<lparr>pdout := ''110,4,5,6,7,8,9;'',
        X1 := 4, Y1 := 5, Z1 := 6, X2 := 7, Y2 := 8, Z2 := 9\<rparr>, [])"
  by (simp add: ReadPD_parse_def Let_def read_field_def line_123_def models_mm_def mm_globals_def
      sample_ReadPD_base_def sample_ParseReal_def sample_readExtraParams_def
      sample_readComments_def digit_value_def)

lemma ReadPD_text:
  "ReadPD sample_mul sample_ReadPD_base sample_ParseReal sample_readExtraParams
     sample_readComments (models_mm 1) ''110,4,5,6,7,8,9;'' line_123
   = Some (True, line_123\<lparr>X1 := 4, Y1 := 5, Z1 := 6, X2 := 7, Y2 := 8, Z2 := 9\<rparr>, [])"
  unfolding ReadPD_def ReadPD_parse_text
  by (simp add: ReadPD_convert_def sample_mul_def line_123_def models_mm_def mm_globals_def)

lemma ReadPD_parse_inch_text:
  "ReadPD_parse sample_ReadPD_base sample_ParseReal sample_readExtraParams sample_readComments
     models_inch ''110,1,0,0,0,0,1;'' line_123
   = Some (True, line_123\<lparr>pdout := ''110,1,0,0,0,0,1;'',
        X1 := 1, Y1 := 0, Z1 := 0, X2 := 0, Y2 := 0, Z2 := 1\<rparr>, [])"
  by (simp add: ReadPD_parse_def Let_def read_field_def line_123_def models_inch_def
      inch_globals_def mm_globals_def sample_ReadPD_base_def sample_ParseReal_def
      sample_readExtraParams_def sample_readComments_def digit_value_def)

lemma ReadPD_inch_text:
  "ReadPD sample_mul sample_ReadPD_base sample_ParseReal sample_readExtraParams
     sample_readComments models_inch ''110,1,0,0,0,0,1;'' line_123
   = Some (True, line_123\<lparr>X1 := 254 / 10, Y1 := 0, Z1 := 0,
        X2 := 0, Y2 := 0, Z2 := 254 / 10\<rparr>, [])"
  unfolding ReadPD_def ReadPD_parse_inch_text
  by (simp add: ReadPD_convert_def sample_mul_def line_123_def models_inch_def
      inch_globals_def mm_globals_def)

subsection \<open>Unit conversion on load\<close>

lemma pt_ReadPD_convert:
  "pt (ReadPD_convert mul g e) = (if convert g then map (\<lambda>x. mul x (cf g)) (pt e) else pt e)"
  by (simp add: ReadPD_convert_def pt_def)

lemma pt_pdout_update: "pt (e\<lparr>pdout := a\<rparr>) = pt e"
  by (simp add: pt_def)

text \<open>
  C2. When \<open>ReadPD\<close> succeeds, the six coordinates are the values parsed from the
  parameter data, each multiplied once by the conversion factor \<open>cf\<close> of the parent
  model if and only if the units flag of the model differs from millimetres and the
  model is configured to convert; for a millimetre model they are the parsed values
  unchanged. The hypotheses are that multiplying a double by 1 changes nothing, and
  that the factor of every model in the store is the one the spec derives from its
  units flag. The second equation is what \<open>ReadPD\<close> itself tests, the configuration
  alone, and holds without the hypotheses.
\<close>

theorem ReadPD_unit_conversion:
  assumes ok: "ReadPD mul base ParseReal readExtraParams readComments mdl io e
                 = Some (True, e', io')"
      and mul_one: "\<And>x. mul x 1 = x"
      and cf_derived: "\<And>a. cf (globalData (mdl a))
          = unit_cf unit_mm (unitsFlag (globalData (mdl a))) (convert (globalData (mdl a)))"
  shows "\<exists>ep p. ReadPD_parse base ParseReal readExtraParams readComments mdl io e
                  = Some (True, ep, io')
            \<and> parent ep = Some p
            \<and> pt e' = (if unitsFlag (globalData (mdl p)) \<noteq> UNIT_MILLIMETER
                             \<and> convert (globalData (mdl p))
                        then map (\<lambda>x. mul x (cf (globalData (mdl p)))) (pt ep) else pt ep)
            \<and> pt e' = (if convert (globalData (mdl p))
                        then map (\<lambda>x. mul x (cf (globalData (mdl p)))) (pt ep) else pt ep)
            \<and> (unitsFlag (globalData (mdl p)) = UNIT_MILLIMETER \<longrightarrow> pt e' = pt ep)"
proof -
  from ok obtain ep where parse:
    "ReadPD_parse base ParseReal readExtraParams readComments mdl io e = Some (True, ep, io')"
    by (auto simp: ReadPD_def split: option.splits prod.splits bool.splits)
  from ok parse obtain p where par: "parent ep = Some p"
    by (cases "parent ep") (auto simp: ReadPD_def)
  let ?g = "globalData (mdl p)"
  from ok parse par have e': "e' = (ReadPD_convert mul ?g ep)\<lparr>pdout := []\<rparr>"
    by (simp add: ReadPD_def)
  have code: "pt e' = (if convert ?g then map (\<lambda>x. mul x (cf ?g)) (pt ep) else pt ep)"
    by (simp only: e' pt_pdout_update pt_ReadPD_convert)
  have mm: "pt e' = pt ep" if "unitsFlag ?g = UNIT_MILLIMETER"
  proof (cases "convert ?g")
    case True
    from cf_derived [of p] that have "cf ?g = 1"
      by (simp add: unit_cf_def)
    moreover have "map (\<lambda>x. mul x 1) (pt ep) = pt ep"
      by (simp add: pt_def mul_one)
    ultimately show ?thesis
      using code True by simp
  next
    case False
    with code show ?thesis by simp
  qed
  have claim: "pt e' = (if unitsFlag ?g \<noteq> UNIT_MILLIMETER \<and> convert ?g
                        then map (\<lambda>x. mul x (cf ?g)) (pt ep) else pt ep)"
  proof (cases "unitsFlag ?g = UNIT_MILLIMETER")
    case True
    with mm show ?thesis by simp
  next
    case False
    with code show ?thesis by simp
  qed
  from parse par claim code mm show ?thesis by blast
qed

theorem ReadPD_unit_conversion_witness:
  "ReadPD sample_mul sample_ReadPD_base sample_ParseReal sample_readExtraParams
     sample_readComments (models_mm 1) ''110,4,5,6,7,8,9;'' line_123
     = Some (True, line_123\<lparr>X1 := 4, Y1 := 5, Z1 := 6, X2 := 7, Y2 := 8, Z2 := 9\<rparr>, [])
   \<and> unitsFlag (globalData (models_mm 1 0)) = UNIT_MILLIMETER
   \<and> convert (globalData (models_mm 1 0))
   \<and> pt (line_123\<lparr>X1 := 4, Y1 := 5, Z1 := 6, X2 := 7, Y2 := 8, Z2 := 9\<rparr>)
       = pt (line_123\<lparr>pdout := ''110,4,5,6,7,8,9;'',
               X1 := 4, Y1 := 5, Z1 := 6, X2 := 7, Y2 := 8, Z2 := 9\<rparr>)
   \<and> ReadPD sample_mul sample_ReadPD_base sample_ParseReal sample_readExtraParams
        sample_readComments models_inch ''110,1,0,0,0,0,1;'' line_123
       = Some (True, line_123\<lparr>X1 := 254 / 10, Y1 := 0, Z1 := 0,
            X2 := 0, Y2 := 0, Z2 := 254 / 10\<rparr>, [])
   \<and> unitsFlag (globalData (models_inch 0)) = UNIT_INCH
   \<and> convert (globalData (models_inch 0))
   \<and> cf (globalData (models_inch 0)) = 254 / 10
   \<and> pt (line_123\<lparr>X1 := 254 / 10, Y1 := 0, Z1 := 0, X2 := 0, Y2 := 0, Z2 := 254 / 10\<rparr>)
       = map (\<lambda>x. sample_mul x (254 / 10))
           (pt (line_123\<lparr>pdout := ''110,1,0,0,0,0,1;'',
                  X1 := 1, Y1 := 0, Z1 := 0, X2 := 0, Y2 := 0, Z2 := 1\<rparr>))"
proof -
  have one: "sample_mul x 1 = x" for x
    by (simp add: sample_mul_def)
  have mm_cf: "cf (globalData (models_mm 1 a))
      = unit_cf sample_unit_mm (unitsFlag (globalData (models_mm 1 a)))
          (convert (globalData (models_mm 1 a)))" for a
    by (simp add: models_mm_def mm_globals_def unit_cf_def)
  have inch_cf: "cf (globalData (models_inch a))
      = unit_cf sample_unit_mm (unitsFlag (globalData (models_inch a)))
          (convert (globalData (models_inch a)))" for a
    by (simp add: models_inch_def inch_globals_def mm_globals_def unit_cf_def sample_unit_mm_def)
  have mm_g: "unitsFlag (globalData (models_mm 1 q)) = UNIT_MILLIMETER"
    "convert (globalData (models_mm 1 q))" for q
    by (simp_all add: models_mm_def mm_globals_def)
  have inch_g: "unitsFlag (globalData (models_inch q)) = UNIT_INCH"
    "convert (globalData (models_inch q))" "cf (globalData (models_inch q)) = 254 / 10" for q
    by (simp_all add: models_inch_def inch_globals_def mm_globals_def)
  from ReadPD_unit_conversion [OF ReadPD_text one mm_cf] obtain ep p where
    parse: "ReadPD_parse sample_ReadPD_base sample_ParseReal sample_readExtraParams
              sample_readComments (models_mm 1) ''110,4,5,6,7,8,9;'' line_123 = Some (True, ep, [])"
    and unchanged: "unitsFlag (globalData (models_mm 1 p)) = UNIT_MILLIMETER \<longrightarrow>
              pt (line_123\<lparr>X1 := 4, Y1 := 5, Z1 := 6, X2 := 7, Y2 := 8, Z2 := 9\<rparr>) = pt ep"
    by blast
  from parse have ep: "ep = line_123\<lparr>pdout := ''110,4,5,6,7,8,9;'',
        X1 := 4, Y1 := 5, Z1 := 6, X2 := 7, Y2 := 8, Z2 := 9\<rparr>"
    by (simp add: ReadPD_parse_text)
  from unchanged mm_g(1) ep
  have first: "pt (line_123\<lparr>X1 := 4, Y1 := 5, Z1 := 6, X2 := 7, Y2 := 8, Z2 := 9\<rparr>)
       = pt (line_123\<lparr>pdout := ''110,4,5,6,7,8,9;'',
               X1 := 4, Y1 := 5, Z1 := 6, X2 := 7, Y2 := 8, Z2 := 9\<rparr>)"
    by simp
  from ReadPD_unit_conversion [OF ReadPD_inch_text one inch_cf] obtain eq q where
    parse_inch: "ReadPD_parse sample_ReadPD_base sample_ParseReal sample_readExtraParams
              sample_readComments models_inch ''110,1,0,0,0,0,1;'' line_123 = Some (True, eq, [])"
    and scaled: "pt (line_123\<lparr>X1 := 254 / 10, Y1 := 0, Z1 := 0,
                       X2 := 0, Y2 := 0, Z2 := 254 / 10\<rparr>)
        = (if unitsFlag (globalData (models_inch q)) \<noteq> UNIT_MILLIMETER
                \<and> convert (globalData (models_inch q))
           then map (\<lambda>x. sample_mul x (cf (globalData (models_inch q)))) (pt eq) else pt eq)"
    by blast
  from parse_inch have eq: "eq = line_123\<lparr>pdout := ''110,1,0,0,0,0,1;'',
        X1 := 1, Y1 := 0, Z1 := 0, X2 := 0, Y2 := 0, Z2 := 1\<rparr>"
    by (simp add: ReadPD_parse_inch_text)
  from scaled inch_g eq
  have second: "pt (line_123\<lparr>X1 := 254 / 10, Y1 := 0, Z1 := 0,
                       X2 := 0, Y2 := 0, Z2 := 254 / 10\<rparr>)
       = map (\<lambda>x. sample_mul x (254 / 10))
           (pt (line_123\<lparr>pdout := ''110,1,0,0,0,0,1;'',
                  X1 := 1, Y1 := 0, Z1 := 0, X2 := 0, Y2 := 0, Z2 := 1\<rparr>))"
    by simp
  from ReadPD_text ReadPD_inch_text mm_g inch_g first second show ?thesis
    by blast
qed

subsection \<open>The parameter line count\<close>

lemma format_items_count:
  assumes add: "\<And>t l out i s pd rd.
      (case AddPDItem t l out i s pd rd of (t', l', out', i') \<Rightarrow> i' - i = nrec out' - nrec out)"
  shows "format_items F AddPDItem ne s pd rd uir k vs (t, l, out, i) = (ok, t', l', out', i')
     \<Longrightarrow> i' - i = nrec out' - nrec out"
proof (induction vs arbitrary: k t l out i)
  case Nil
  then show ?case by simp
next
  case (Cons v vs)
  obtain b t1 where f: "F t v (if k = 5 \<and> ne then rd else pd) uir = (b, t1)"
    by (cases "F t v (if k = 5 \<and> ne then rd else pd) uir")
  show ?case
  proof (cases b)
    case False
    with Cons.prems f show ?thesis by simp
  next
    case True
    obtain t2 l2 out2 i2 where a: "AddPDItem t1 l out i s pd rd = (t2, l2, out2, i2)"
      by (cases "AddPDItem t1 l out i s pd rd") auto
    from add [where t = t1 and l = l and out = out and i = i and s = s and pd = pd and rd = rd] a
    have step: "i2 - i = nrec out2 - nrec out" by simp
    from Cons.prems f True a
    have "format_items F AddPDItem ne s pd rd uir (Suc k) vs (t2, l2, out2, i2)
            = (ok, t', l', out', i')"
      by simp
    from Cons.IH [OF this] step show ?thesis by simp
  qed
qed

lemma pt_base_update [simp]:
  "pt (e\<lparr>pdout := a\<rparr>) = pt e"
  "pt (e\<lparr>iExtras := b\<rparr>) = pt e"
  "pt (e\<lparr>parameterData := c\<rparr>) = pt e"
  by (simp_all add: pt_def)

text \<open>The path of a successful \<open>format\<close>, step by step.\<close>

lemma format_success_cases:
  assumes ok: "format F A fex fco mdl e0 index = (True, e', index')"
  obtains p t1 l1 out1 i1 e2 l2 i2 e3 where
    "1 \<le> index" "index \<le> 9999999"
    "parent e0 = Some p"
    "format_items F A (extras e0 = []) (sequenceNumber e0)
        (pdelim (globalData (mdl p))) (rdelim (globalData (mdl p)))
        (minResolution (globalData (mdl p)))
        0 (pt e0) ([], string_of_int (entityType e0) @ [pdelim (globalData (mdl p))], [], index)
      = (True, t1, l1, out1, i1)"
    "(if extras e0 \<noteq> []
      then fex (e0\<lparr>iExtras := [], parameterData := index, pdout := out1\<rparr>) l1 i1
             (pdelim (globalData (mdl p))) (rdelim (globalData (mdl p)))
      else (True, e0\<lparr>iExtras := [], parameterData := index, pdout := out1\<rparr>, l1, i1))
      = (True, e2, l2, i2)"
    "fco e2 i2 = (True, e3, index')"
    "e' = e3\<lparr>paramLineCount := index' - parameterData e3\<rparr>"
proof -
  from ok have rng: "1 \<le> index" "index \<le> 9999999"
    by (auto simp: format_def Let_def split: if_splits)
  from ok rng obtain p where par: "parent e0 = Some p"
    by (cases "parent e0") (auto simp: format_def Let_def)
  let ?pd = "pdelim (globalData (mdl p))"
  let ?rd = "rdelim (globalData (mdl p))"
  let ?uir = "minResolution (globalData (mdl p))"
  obtain b1 t1 l1 out1 i1 where items:
    "format_items F A (extras e0 = []) (sequenceNumber e0) ?pd ?rd ?uir
        0 (pt e0) ([], string_of_int (entityType e0) @ [?pd], [], index) = (b1, t1, l1, out1, i1)"
    using prod_cases5 by blast
  from ok rng par items have b1: "b1"
    by (cases b1) (simp_all add: format_def Let_def)
  let ?e1 = "e0\<lparr>iExtras := [], parameterData := index, pdout := out1\<rparr>"
  obtain b2 e2 l2 i2 where ex:
    "(if extras e0 \<noteq> [] then fex ?e1 l1 i1 ?pd ?rd else (True, ?e1, l1, i1)) = (b2, e2, l2, i2)"
    using prod_cases4 by blast
  from ok rng par items b1 ex have b2: "b2"
    by (cases b2) (simp_all add: format_def Let_def)
  obtain b3 e3 i3 where co: "fco e2 i2 = (b3, e3, i3)"
    using prod_cases3 by blast
  from ok rng par items b1 ex b2 co have b3: "b3"
    by (cases b3) (simp_all add: format_def Let_def)
  from ok rng par items b1 ex b2 co b3
  have fin: "i3 = index'" "e' = e3\<lparr>paramLineCount := index' - parameterData e3\<rparr>"
    by (auto simp: format_def Let_def)
  from items b1 have items':
    "format_items F A (extras e0 = []) (sequenceNumber e0) ?pd ?rd ?uir
        0 (pt e0) ([], string_of_int (entityType e0) @ [?pd], [], index) = (True, t1, l1, out1, i1)"
    by simp
  from ex b2 have ex':
    "(if extras e0 \<noteq> [] then fex ?e1 l1 i1 ?pd ?rd else (True, ?e1, l1, i1)) = (True, e2, l2, i2)"
    by simp
  from co b3 fin(1) have co': "fco e2 i2 = (True, e3, index')" by simp
  from rng par items' ex' co' fin(2) show thesis by (rule that)
qed

text \<open>
  C3. Whatever value \<open>v\<close> the field \<open>paramLineCount\<close> held before, after a successful
  \<open>format\<close> started at \<open>index\<close> the starting number lies in [1, 9999999] and
  \<open>paramLineCount\<close> is the amount by which \<open>format\<close> advanced the sequence number;
  it is also the number \<open>nrec\<close> of records in the output \<open>pdout\<close>. The hypotheses state
  what this needs of the functions defined outside the file: the two member functions
  leave \<open>parameterData\<close> alone, the output starts with no record, and each function
  that writes to the output advances the sequence number by the number of records it
  appends.
\<close>

theorem format_paramLineCount:
  assumes fex_frame:
        "\<And>e l i pd rd. parameterData (fst (snd (fex e l i pd rd))) = parameterData e"
      and fco_frame: "\<And>e i. parameterData (fst (snd (fco e i))) = parameterData e"
      and nrec_empty: "nrec [] = 0"
      and add_count: "\<And>t l out i s pd rd.
          (case A t l out i s pd rd of (t', l', out', i') \<Rightarrow> i' - i = nrec out' - nrec out)"
      and fex_count: "\<And>e l i pd rd.
          (case fex e l i pd rd of
             (ok, e', l', i') \<Rightarrow> i' - i = nrec (pdout e') - nrec (pdout e))"
      and fco_count: "\<And>e i.
          (case fco e i of (ok, e', i') \<Rightarrow> i' - i = nrec (pdout e') - nrec (pdout e))"
      and ok: "format F A fex fco mdl (e\<lparr>paramLineCount := v\<rparr>) index = (True, e', index')"
  shows "1 \<le> index \<and> index \<le> 9999999
       \<and> paramLineCount e' = index' - index
       \<and> paramLineCount e' = nrec (pdout e')"
proof -
  let ?e0 = "e\<lparr>paramLineCount := v\<rparr>"
  let ?pd = "pdelim (globalData (mdl p))"
  from ok obtain p t1 l1 out1 i1 e2 l2 i2 e3 where
    rng: "1 \<le> index" "index \<le> 9999999"
    and items: "format_items F A (extras ?e0 = []) (sequenceNumber ?e0)
        (pdelim (globalData (mdl p))) (rdelim (globalData (mdl p)))
        (minResolution (globalData (mdl p)))
        0 (pt ?e0) ([], string_of_int (entityType ?e0) @ [pdelim (globalData (mdl p))], [], index)
      = (True, t1, l1, out1, i1)"
    and ex: "(if extras ?e0 \<noteq> []
      then fex (?e0\<lparr>iExtras := [], parameterData := index, pdout := out1\<rparr>) l1 i1
             (pdelim (globalData (mdl p))) (rdelim (globalData (mdl p)))
      else (True, ?e0\<lparr>iExtras := [], parameterData := index, pdout := out1\<rparr>, l1, i1))
      = (True, e2, l2, i2)"
    and co: "fco e2 i2 = (True, e3, index')"
    and e': "e' = e3\<lparr>paramLineCount := index' - parameterData e3\<rparr>"
    by (rule format_success_cases)
  let ?e1 = "?e0\<lparr>iExtras := [], parameterData := index, pdout := out1\<rparr>"
  have n1: "i1 - index = nrec out1"
    using format_items_count [OF add_count items] nrec_empty by simp
  have step2: "parameterData e2 = index \<and> i2 - i1 = nrec (pdout e2) - nrec out1"
  proof (cases "extras ?e0 = []")
    case True
    with ex show ?thesis by auto
  next
    case False
    with ex have call: "fex ?e1 l1 i1 (pdelim (globalData (mdl p))) (rdelim (globalData (mdl p)))
        = (True, e2, l2, i2)"
      by simp
    from call fex_frame [where e = ?e1 and l = l1 and i = i1
        and pd = "pdelim (globalData (mdl p))" and rd = "rdelim (globalData (mdl p))"]
    have "parameterData e2 = index" by simp
    moreover from call fex_count [where e = ?e1 and l = l1 and i = i1
        and pd = "pdelim (globalData (mdl p))" and rd = "rdelim (globalData (mdl p))"]
    have "i2 - i1 = nrec (pdout e2) - nrec out1" by simp
    ultimately show ?thesis by simp
  qed
  have pd3: "parameterData e3 = index"
    using fco_frame [where e = e2 and i = i2] co step2 by simp
  have n3: "index' - i2 = nrec (pdout e3) - nrec (pdout e2)"
    using fco_count [where e = e2 and i = i2] co by simp
  from e' pd3 have plc: "paramLineCount e' = index' - index" by simp
  from e' have "pdout e' = pdout e3" by simp
  with plc n1 step2 n3 have "paramLineCount e' = nrec (pdout e')" by simp
  with rng plc show ?thesis by simp
qed

lemma sample_record_length:
  "length (take 80 (l @ t @ replicate 80 c) @ [d]) = 81"
  by (simp del: take_append)

lemma count_records_append:
  "length r = 81 \<Longrightarrow> count_records (out @ r) = count_records out + 1"
  by (simp add: count_records_def)

theorem format_paramLineCount_witness:
  "format sample_FormatPDREal sample_AddPDItem sample_formatExtraParams sample_formatComments
     (models_mm 1) (line_123\<lparr>paramLineCount := 99\<rparr>) 5
     = (True, line_123\<lparr>paramLineCount := 1, parameterData := 5,
          pdout := ''110,0,0,0,1,2,3;'' @ replicate 64 (CHR '' '') @ [CHR 0x0A]\<rparr>, 6)
   \<and> paramLineCount (line_123\<lparr>paramLineCount := 1, parameterData := 5,
          pdout := ''110,0,0,0,1,2,3;'' @ replicate 64 (CHR '' '') @ [CHR 0x0A]\<rparr>) = 6 - 5
   \<and> paramLineCount (line_123\<lparr>paramLineCount := 1, parameterData := 5,
          pdout := ''110,0,0,0,1,2,3;'' @ replicate 64 (CHR '' '') @ [CHR 0x0A]\<rparr>)
       = count_records (pdout (line_123\<lparr>paramLineCount := 1, parameterData := 5,
          pdout := ''110,0,0,0,1,2,3;'' @ replicate 64 (CHR '' '') @ [CHR 0x0A]\<rparr>))"
proof -
  have 1: "parameterData (fst (snd (sample_formatExtraParams e l i pd rd))) = parameterData e"
    for e :: IGES_ENTITY_110 and l i pd rd
    by (simp add: sample_formatExtraParams_def)
  have 2: "parameterData (fst (snd (sample_formatComments e i))) = parameterData e"
    for e :: IGES_ENTITY_110 and i
    by (simp add: sample_formatComments_def)
  have 3: "count_records [] = 0"
    by (simp add: count_records_def)
  have 4: "(case sample_AddPDItem t l out i s pd rd of
              (t', l', out', i') \<Rightarrow> i' - i = count_records out' - count_records out)"
    for t l out i s pd rd
    by (simp add: sample_AddPDItem_def count_records_append sample_record_length
        del: take_append)
  have 5: "(case sample_formatExtraParams e l i pd rd of
              (ok, e', l', i') \<Rightarrow> i' - i = count_records (pdout e') - count_records (pdout e))"
    for e :: IGES_ENTITY_110 and l i pd rd
    by (simp add: sample_formatExtraParams_def)
  have 6: "(case sample_formatComments e i of
              (ok, e', i') \<Rightarrow> i' - i = count_records (pdout e') - count_records (pdout e))"
    for e :: IGES_ENTITY_110 and i
    by (simp add: sample_formatComments_def)
  from format_paramLineCount [of sample_formatExtraParams sample_formatComments count_records
      sample_AddPDItem, OF 1 2 3 4 5 6 format_line_123] format_line_123
  show ?thesis by simp
qed

subsection \<open>Form numbers and the Directory Entry\<close>

text \<open>
  C4. The form numbers of the Line are 0, 1 and 2: \<open>ReadDE\<close> returns true exactly when
  the base-class reader succeeded and the form number it read is one of them, and
  \<open>SetEntityForm\<close> stores such a form and returns true, and otherwise returns false
  and leaves the entity as it was.
\<close>

theorem form_whitelist:
  "fst (ReadDE base io e) =
     (fst (base io e) \<and> form (fst (snd (base io e))) \<in> {0, 1, 2})
   \<and> SetEntityForm aForm e =
     (if aForm \<in> {0, 1, 2} then (True, e\<lparr>form := aForm\<rparr>) else (False, e))"
  by (auto simp: ReadDE_def SetEntityForm_def Let_def split: prod.splits bool.splits)

theorem form_whitelist_witness:
  "\<not> fst (ReadDE sample_ReadDE_base (7, 5, STAT_HIER_NO_SUB) line_123)
   \<and> fst (ReadDE sample_ReadDE_base (2, 5, STAT_HIER_NO_SUB) line_123)
   \<and> SetEntityForm 7 line_123 = (False, line_123)
   \<and> SetEntityForm 2 line_123 = (True, line_123\<lparr>form := 2\<rparr>)"
  using form_whitelist [of sample_ReadDE_base "(7, 5, STAT_HIER_NO_SUB)" line_123 7]
    form_whitelist [of sample_ReadDE_base "(2, 5, STAT_HIER_NO_SUB)" line_123 2]
  by (simp add: sample_ReadDE_base_def)

text \<open>
  C10. After every successful \<open>ReadDE\<close> on a Line the structure field is 0 and the
  hierarchy field is \<open>STAT_HIER_ALL_SUB\<close>, whatever the base-class reader took from
  the Directory Entry records.
\<close>

theorem ReadDE_discards_structure_hierarchy:
  assumes "ReadDE base io e = (True, e', io')"
  shows "structureDE e' = 0 \<and> hierarchy e' = STAT_HIER_ALL_SUB"
  using assms
  by (auto simp: ReadDE_def Let_def split: prod.splits bool.splits if_splits)

theorem ReadDE_discards_structure_hierarchy_witness:
  "ReadDE sample_ReadDE_base (2, 5, STAT_HIER_NO_SUB) line_123
     = (True, line_123\<lparr>form := 2, structureDE := 0, hierarchy := STAT_HIER_ALL_SUB\<rparr>,
        (2, 5, STAT_HIER_NO_SUB))
   \<and> structureDE (fst (snd (sample_ReadDE_base (2, 5, STAT_HIER_NO_SUB) line_123))) = 5
   \<and> hierarchy (fst (snd (sample_ReadDE_base (2, 5, STAT_HIER_NO_SUB) line_123)))
       = STAT_HIER_NO_SUB
   \<and> structureDE (line_123\<lparr>form := 2, structureDE := 0, hierarchy := STAT_HIER_ALL_SUB\<rparr>) = 0
   \<and> hierarchy (line_123\<lparr>form := 2, structureDE := 0, hierarchy := STAT_HIER_ALL_SUB\<rparr>)
       = STAT_HIER_ALL_SUB"
proof -
  have r: "ReadDE sample_ReadDE_base (2, 5, STAT_HIER_NO_SUB) line_123
     = (True, line_123\<lparr>form := 2, structureDE := 0, hierarchy := STAT_HIER_ALL_SUB\<rparr>,
        (2, 5, STAT_HIER_NO_SUB))"
    by (simp add: ReadDE_def sample_ReadDE_base_def)
  from ReadDE_discards_structure_hierarchy [OF r] r show ?thesis
    by (simp add: sample_ReadDE_base_def)
qed

subsection \<open>Association\<close>

text \<open>
  C5. \<open>associate\<close> returns what the base-class association returns, so false when that
  fails, with the store as that left it. When it succeeds and leaves the structure
  pointer of the Line \<open>self\<close> non-null, pointing to \<open>t\<close>, then afterwards the violation
  is the one message logged, the structure pointer of the Line is null, the target is
  what \<open>DelReference\<close> of the Line makes of it, its \<open>refs\<close> list being the former one
  with the Line taken out once, and every other entity is as the base-class
  association left it. So after a successful \<open>associate\<close> the \<open>refs\<close> list of the
  former target does not contain the Line, provided the list had no duplicates,
  which is the invariant of the spec for \<open>refs\<close>. When the structure pointer is
  null, nothing more is done.
\<close>

theorem associate_clears_structure:
  "(let h1 = snd (base entityList self h);
        r = associate base entityList self h errlog;
        h' = fst (snd r)
    in fst r = fst (base entityList self h)
     \<and> (\<not> fst (base entityList self h) \<longrightarrow>
          r = (False, h1, errlog @ [''[INFO] failed to establish associations'']))
     \<and> (fst (base entityList self h) \<and> pStructure (h1 self) = None \<longrightarrow>
          r = (True, h1, errlog))
     \<and> (fst (base entityList self h) \<and> pStructure (h1 self) = Some t \<longrightarrow>
          snd (snd r) = errlog @ [''[VIOLATION] Structure entity is set'']
        \<and> pStructure (h' self) = None
        \<and> h' self = (if t = self then snd (DelReference self (h1 self)) else h1 self)
                        \<lparr>pStructure := None\<rparr>
        \<and> (t \<noteq> self \<longrightarrow> h' t = snd (DelReference self (h1 t)))
        \<and> refs (h' t) = remove1 self (refs (h1 t))
        \<and> (\<forall>a. a \<noteq> self \<and> a \<noteq> t \<longrightarrow> h' a = h1 a)
        \<and> (distinct (refs (h1 t)) \<longrightarrow> self \<notin> set (refs (h' t)))))"
proof -
  obtain b h1 where bs: "base entityList self h = (b, h1)"
    by (cases "base entityList self h")
  show ?thesis
  proof (cases b)
    case False
    with bs show ?thesis
      by (simp add: associate_def Let_def)
  next
    case True
    show ?thesis
    proof (cases "pStructure (h1 self)")
      case None
      with bs True show ?thesis
        by (simp add: associate_def Let_def)
    next
      case (Some u)
      with bs True show ?thesis
        by (simp add: associate_def DelReference_def Let_def remove1_idem)
    qed
  qed
qed

theorem associate_clears_structure_witness:
  "fst (sample_associate_base () 4 sample_store)
   \<and> pStructure (snd (sample_associate_base () 4 sample_store) 4) = Some 2
   \<and> refs (snd (sample_associate_base () 4 sample_store) 2) = [7, 4, 9]
   \<and> refs (snd (sample_associate_base () 4 sample_store) 3) = [4]
   \<and> fst (associate sample_associate_base () 4 sample_store [])
   \<and> snd (snd (associate sample_associate_base () 4 sample_store []))
       = [''[VIOLATION] Structure entity is set'']
   \<and> pStructure (fst (snd (associate sample_associate_base () 4 sample_store [])) 4) = None
   \<and> fst (snd (associate sample_associate_base () 4 sample_store [])) 4
       = (sample_store 4)\<lparr>pStructure := None\<rparr>
   \<and> fst (snd (associate sample_associate_base () 4 sample_store [])) 2
       = snd (DelReference 4 (sample_store 2))
   \<and> refs (fst (snd (associate sample_associate_base () 4 sample_store [])) 2) = [7, 9]
   \<and> 4 \<notin> set (refs (fst (snd (associate sample_associate_base () 4 sample_store [])) 2))
   \<and> fst (snd (associate sample_associate_base () 4 sample_store [])) 3 = sample_store 3
   \<and> refs (fst (snd (associate sample_associate_base () 4 sample_store [])) 3) = [4]"
proof -
  have base: "sample_associate_base () 4 sample_store = (True, sample_store)"
    by (simp add: sample_associate_base_def)
  have store: "pStructure (sample_store 4) = Some 2" "refs (sample_store 2) = [7, 4, 9]"
    "refs (sample_store 3) = [4]"
    by (simp_all add: sample_store_def line_123_def)
  note inst = associate_clears_structure [where base = sample_associate_base
      and entityList = "()" and self = 4 and h = sample_store and t = 2 and errlog = "[]",
      unfolded Let_def base fst_conv snd_conv]
  have del: "refs (snd (DelReference 4 (sample_store 2))) = [7, 9]"
    by (simp add: DelReference_def store)
  from inst store have ok: "fst (associate sample_associate_base () 4 sample_store [])"
    by simp
  from inst store have msg: "snd (snd (associate sample_associate_base () 4 sample_store []))
       = [''[VIOLATION] Structure entity is set'']"
    by simp
  from inst store have line: "fst (snd (associate sample_associate_base () 4 sample_store [])) 4
       = (sample_store 4)\<lparr>pStructure := None\<rparr>"
    by simp
  from inst store have target: "fst (snd (associate sample_associate_base () 4 sample_store [])) 2
       = snd (DelReference 4 (sample_store 2))"
    by simp
  from inst store have "\<forall>a. a \<noteq> 4 \<and> a \<noteq> 2 \<longrightarrow>
      fst (snd (associate sample_associate_base () 4 sample_store [])) a = sample_store a"
    by simp
  then have other: "fst (snd (associate sample_associate_base () 4 sample_store [])) 3
      = sample_store 3"
    by simp
  show ?thesis
    by (simp add: base store ok msg line target other del)
qed

section \<open>Properties of the handle\<close>

text \<open>
  C7. When the validity flag of the handle is false or its entity pointer is null,
  each of the four operations returns false, returns every output parameter with the
  value it was given, and leaves the entity store as it was.
\<close>

theorem invalid_handle_refuses:
  assumes "\<not> m_valid hnd \<or> m_entity hnd = None"
  shows "GetSubfigure GetDE hnd h aPtr = (False, aPtr, h)
       \<and> SetSubfigure SetDE hnd h aPtr = (False, h)
       \<and> GetSubfigParams hnd h (aX, aY, aZ, aScale) = (False, aX, aY, aZ, aScale)
       \<and> SetSubfigParams hnd h bX bY bZ bScale = (False, h)"
  using assms
  by (auto simp: GetSubfigure_def SetSubfigure_def GetSubfigParams_def SetSubfigParams_def)

theorem invalid_handle_refuses_witness:
  "\<not> m_valid (empty_handle\<lparr>m_entity := Some 0\<rparr>)
   \<and> m_entity (empty_handle\<lparr>m_entity := Some 0\<rparr>) = Some 0
   \<and> GetSubfigure sample_GetDE (empty_handle\<lparr>m_entity := Some 0\<rparr>) (ents empty_world) (Some 5)
       = (False, Some 5, ents empty_world)
   \<and> SetSubfigure sample_SetDE (empty_handle\<lparr>m_entity := Some 0\<rparr>) (ents empty_world) (Some 5)
       = (False, ents empty_world)
   \<and> GetSubfigParams (empty_handle\<lparr>m_entity := Some 0\<rparr>) (ents empty_world) (9, 9, 9, 9)
       = (False, 9, 9, 9, 9)
   \<and> SetSubfigParams (empty_handle\<lparr>m_entity := Some 0\<rparr>) (ents empty_world) 1 2 3 4
       = (False, ents empty_world)"
proof -
  have inv: "\<not> m_valid (empty_handle\<lparr>m_entity := Some 0\<rparr>)
      \<or> m_entity (empty_handle\<lparr>m_entity := Some 0\<rparr>) = None"
    by (simp add: empty_handle_def)
  from invalid_handle_refuses [OF inv, of sample_GetDE "ents empty_world" "Some 5" sample_SetDE
      9 9 9 9 1 2 3 4]
  show ?thesis by (simp add: empty_handle_def)
qed

text \<open>
  C8, as amended. A handle constructed with \<open>create\<close> set obtains its entity from
  \<open>NewEntity\<close> of the model it is given when that model is non-null: the entity has
  the model as its parent and is in the entity list of the model. The constructor
  taking a raw model pointer, given a null pointer, allocates the entity itself: the
  entity has no parent and no model lists it. In both cases the parent of the new
  entity is the model argument. Without \<open>create\<close>, or through the wrapper of a model
  that holds no model, no entity is allocated.
\<close>

theorem handle_ctor_ownership:
  "(case DLL_IGES_ENTITY_408_ctor init hp aParent True hbase w of
      (hnd', w') \<Rightarrow>
        m_entity hnd' = Some (next_addr w)
        \<and> parent (ents w' (next_addr w)) = aParent
        \<and> (case aParent of
             None \<Rightarrow> models w' = models w
           | Some m \<Rightarrow> next_addr w \<in> set (entities (models w' m))))
   \<and> (case DLL_IGES_ENTITY_408_ctor_dll init hp (Some m) True hbase w of
        (hnd', w') \<Rightarrow>
          m_entity hnd' = Some (next_addr w)
          \<and> parent (ents w' (next_addr w)) = Some m
          \<and> next_addr w \<in> set (entities (models w' m)))
   \<and> snd (DLL_IGES_ENTITY_408_ctor init hp aParent False hbase w) = w
   \<and> snd (DLL_IGES_ENTITY_408_ctor_dll init hp ip False hbase w) = w
   \<and> snd (DLL_IGES_ENTITY_408_ctor_dll init hp None create hbase w) = w"
  by (auto simp: DLL_IGES_ENTITY_408_ctor_def DLL_IGES_ENTITY_408_ctor_dll_def NewEntity_def
      new_IGES_ENTITY_408_def attach_if_set_def AttachValidFlag_def Let_def
      split: option.splits prod.splits)

theorem handle_ctor_ownership_witness:
  "m_entity (fst (DLL_IGES_ENTITY_408_ctor instance_408 0 (Some 3) True empty_handle empty_world))
     = Some 0
   \<and> parent (ents (snd (DLL_IGES_ENTITY_408_ctor instance_408 0 (Some 3) True empty_handle
         empty_world)) 0) = Some 3
   \<and> 0 \<in> set (entities (models (snd (DLL_IGES_ENTITY_408_ctor instance_408 0 (Some 3) True
         empty_handle empty_world)) 3))
   \<and> snd (DLL_IGES_ENTITY_408_ctor_dll instance_408 0 None True empty_handle empty_world)
       = empty_world"
proof -
  have next0: "next_addr empty_world = 0"
    by (simp add: empty_world_def)
  from handle_ctor_ownership [where init = instance_408 and hp = 0 and aParent = "Some 3"
      and hbase = empty_handle and w = empty_world and create = True and m = 3 and ip = None]
    next0
  show ?thesis by (simp add: case_prod_beta)
qed

theorem ctor_null_parent_counterexample:
  "m_entity (fst (DLL_IGES_ENTITY_408_ctor instance_408 0 None True empty_handle empty_world))
     = Some 0
   \<and> parent (ents (snd (DLL_IGES_ENTITY_408_ctor instance_408 0 None True empty_handle
         empty_world)) 0) = None
   \<and> models (snd (DLL_IGES_ENTITY_408_ctor instance_408 0 None True empty_handle empty_world))
       = models empty_world
   \<and> entities (models empty_world 0) = []"
  by (simp add: DLL_IGES_ENTITY_408_ctor_def new_IGES_ENTITY_408_def attach_if_set_def
      AttachValidFlag_def Let_def empty_world_def empty_handle_def instance_408_def mm_model_def)


end
